theory Spec2Isabelle
  imports Complex_Main "HOL-Library.Sublist"
begin

section \<open>Values of the Python program\<close>

text \<open>
  What \<open>resp.json()\<close> returns: a parsed JSON value. A Python dict is an association
  list read with \<open>map_of\<close>; a parsed dict has no duplicate keys. Numbers that are not
  integers are carried as they are, the SDK never looks at them. A request payload built
  by the SDK (the \<open>json=\<close> argument) is a value of the same type.
\<close>

datatype json =
    JNull
  | JBool bool
  | JInt int
  | JFloat real
  | JStr string
  | JArr "json list"
  | JObj "(string \<times> json) list"

text \<open>
  What \<open>self._session.request\<close> can raise. \<open>ConnectTimeout\<close> is a subclass of both
  \<open>requests.ConnectionError\<close> and \<open>requests.Timeout\<close>; \<open>OtherException\<close> stands for every
  exception that is neither (too many redirects, an invalid URL, ...).
\<close>

datatype request_exception = ConnectionError | ConnectTimeout | Timeout | OtherException

text \<open>
  The exceptions a caller of the SDK can see. The four \<open>Oshi...\<close> classes are the ones
  declared in \<open>oshi_bot.py\<close>, each carrying its single constructor argument: a string
  built by the SDK (\<open>JStr\<close>), or whatever \<open>data.get("error", ...)\<close> found in the body.
  \<open>AttributeError\<close>, \<open>KeyError\<close> and \<open>TypeError\<close> are the built-in exceptions of an
  attribute access, a subscript or an iteration on a value of the wrong shape;
  \<open>Unhandled\<close> is an exception of the transport that no \<open>except\<close> clause catches.
\<close>

datatype exn =
    OshiBotError json
  | OshiAuthError json
  | OshiRateLimitError json
  | OshiGroupError json
  | AttributeError
  | KeyError
  | TypeError
  | Unhandled request_exception

text \<open>\<open>except OshiBotError\<close>: the base class and its three subclasses.\<close>

fun is_OshiBotError :: "exn \<Rightarrow> bool" where
  "is_OshiBotError (OshiBotError m) = True"
| "is_OshiBotError (OshiAuthError m) = True"
| "is_OshiBotError (OshiRateLimitError m) = True"
| "is_OshiBotError (OshiGroupError m) = True"
| "is_OshiBotError e = False"

text \<open>The argument an SDK exception was constructed with.\<close>

fun exn_arg :: "exn \<Rightarrow> json option" where
  "exn_arg (OshiBotError m) = Some m"
| "exn_arg (OshiAuthError m) = Some m"
| "exn_arg (OshiRateLimitError m) = Some m"
| "exn_arg (OshiGroupError m) = Some m"
| "exn_arg e = None"

subsection \<open>Decimal rendering of integers in f-strings\<close>

fun str_nat :: "nat \<Rightarrow> string" where
  "str_nat n =
     (if n < 10 then [''0123456789'' ! n]
      else str_nat (n div 10) @ [''0123456789'' ! (n mod 10)])"

declare str_nat.simps [simp del]

definition str_int :: "int \<Rightarrow> string" where
  "str_int i = (if i < 0 then ''-'' @ str_nat (nat (- i)) else str_nat (nat i))"

subsection \<open>Dictionary access\<close>

text \<open>
  \<open>d.get(k, dflt)\<close>: only a dict has the method \<open>get\<close>; on any other parsed value the
  attribute access raises \<open>AttributeError\<close>.
\<close>

definition dict_get :: "json \<Rightarrow> string \<Rightarrow> json \<Rightarrow> exn + json" where
  "dict_get d k dflt =
     (case d of
        JObj kvs \<Rightarrow> Inr (case map_of kvs k of Some v \<Rightarrow> v | None \<Rightarrow> dflt)
      | _ \<Rightarrow> Inl AttributeError)"

text \<open>
  \<open>g[k]\<close> with a string key: a dict without the key raises \<open>KeyError\<close>; a list or a
  string wants an integer index and every other value is not subscriptable, both
  \<open>TypeError\<close>.
\<close>

definition getitem :: "json \<Rightarrow> string \<Rightarrow> exn + json" where
  "getitem g k =
     (case g of
        JObj kvs \<Rightarrow> (case map_of kvs k of Some v \<Rightarrow> Inr v | None \<Rightarrow> Inl KeyError)
      | _ \<Rightarrow> Inl TypeError)"

text \<open>
  \<open>for group in v\<close>: a list yields its elements, a dict its keys, a string its
  characters; nothing else is iterable.
\<close>

definition iterate :: "json \<Rightarrow> exn + json list" where
  "iterate v =
     (case v of
        JArr xs \<Rightarrow> Inr xs
      | JObj kvs \<Rightarrow> Inr (map (\<lambda>kv. JStr (fst kv)) kvs)
      | JStr cs \<Rightarrow> Inr (map (\<lambda>c. JStr [c]) cs)
      | _ \<Rightarrow> Inl TypeError)"

section \<open>The client, the transport and the state\<close>

text \<open>The four attributes \<open>__init__\<close> stores on the client.\<close>

record OshiBot =
  token :: string
  base_url :: string
  timeout :: int
  auto_retry :: bool

text \<open>
  The keyword arguments handed to \<open>session.request\<close>: the SDK passes \<open>json=\<close> or
  \<open>params=\<close> or neither, and \<open>_request\<close> adds \<open>timeout=\<close>.
\<close>

record kwargs =
  kw_json :: "json option"
  kw_params :: "(string \<times> string) list option"
  kw_timeout :: "int option"

record request =
  req_method :: string
  req_url :: string
  req_kwargs :: kwargs

text \<open>
  The part of a \<open>requests.Response\<close> that \<open>_request\<close> reads: the status code, and the
  result of \<open>resp.json()\<close>, where \<open>None\<close> means that it raises \<open>ValueError\<close>.
\<close>

record response =
  status_code :: int
  json_body :: "json option"

text \<open>
  The effects of the SDK, in the order they happen: a request put on the wire, a
  warning logged, a blocking \<open>time.sleep\<close>.
\<close>

datatype event = Request request | Warning string | Sleep int

text \<open>
  The server and the network between: what the n-th request of a run (counted from 0)
  is answered with. Every deterministic behaviour of the outside world is one such
  function.
\<close>

type_synonym network = "nat \<Rightarrow> request \<Rightarrow> request_exception + response"

text \<open>
  The state a method runs in: the client object itself, so that an assignment to one of
  its attributes would show, and the trace of effects so far.
\<close>

record state =
  client :: OshiBot
  trace :: "event list"

fun is_Request :: "event \<Rightarrow> bool" where
  "is_Request (Request r) = True"
| "is_Request e = False"

definition attempts :: "event list \<Rightarrow> nat" where
  "attempts tr = length (filter is_Request tr)"

definition session_request ::
  "network \<Rightarrow> request \<Rightarrow> state \<Rightarrow> (request_exception + response) \<times> state" where
  "session_request net req s =
     (net (attempts (trace s)) req, s\<lparr>trace := trace s @ [Request req]\<rparr>)"

definition logger_warning :: "string \<Rightarrow> state \<Rightarrow> state" where
  "logger_warning msg s = s\<lparr>trace := trace s @ [Warning msg]\<rparr>"

definition time_sleep :: "int \<Rightarrow> state \<Rightarrow> state" where
  "time_sleep secs s = s\<lparr>trace := trace s @ [Sleep secs]\<rparr>"

section \<open>The client's methods\<close>

subsection \<open>\<open>__init__\<close> and \<open>__repr__\<close>\<close>

text \<open>
  \<open>__init__\<close> also creates the \<open>requests.Session\<close>; the session is the transport,
  which \<open>session_request\<close> stands for. In \<open>__repr__\<close>, \<open>CHR 0x27\<close> is the single quote
  of the f-string.
\<close>

text \<open>\<open>str.rstrip("/")\<close>: every trailing slash goes.\<close>

definition rstrip_slash :: "string \<Rightarrow> string" where
  "rstrip_slash s = rev (dropWhile (\<lambda>c. c = CHR ''/'') (rev s))"

definition OshiBot_init :: "string \<Rightarrow> string \<Rightarrow> int \<Rightarrow> bool \<Rightarrow> OshiBot" where
  "OshiBot_init tok url tmo retry =
     \<lparr>token = tok, base_url = rstrip_slash url, timeout = tmo, auto_retry = retry\<rparr>"

definition OshiBot_repr :: "OshiBot \<Rightarrow> string" where
  "OshiBot_repr self =
     ''OshiBot(token='' @ [CHR 0x27] @ take 8 (token self) @ ''...'' @ [CHR 0x27]
       @ '', base_url='' @ [CHR 0x27] @ base_url self @ [CHR 0x27] @ '')''"

subsection \<open>\<open>_request\<close>\<close>

text \<open>\<open>kwargs.setdefault("timeout", self.timeout)\<close>\<close>

definition setdefault_timeout :: "kwargs \<Rightarrow> int \<Rightarrow> kwargs" where
  "setdefault_timeout kw t =
     (case kw_timeout kw of None \<Rightarrow> kw\<lparr>kw_timeout := Some t\<rparr> | Some _ \<Rightarrow> kw)"

text \<open>
  \<open>raise C(data.get("error", dflt))\<close>: the argument is evaluated first, and its own
  exception wins.
\<close>

definition raise_get :: "(json \<Rightarrow> exn) \<Rightarrow> json \<Rightarrow> string \<Rightarrow> exn + json" where
  "raise_get C data dflt =
     (case dict_get data ''error'' (JStr dflt) of
        Inl e \<Rightarrow> Inl e
      | Inr m \<Rightarrow> Inl (C m))"

text \<open>
  The second half of \<open>_request\<close>, from \<open># Parse response\<close> to \<open>return data\<close>: parse the
  body, then classify by status code.
\<close>

definition handle_response :: "response \<Rightarrow> exn + json" where
  "handle_response resp =
     (case json_body resp of
        None \<Rightarrow>
          Inl (OshiBotError (JStr (''Invalid response from server (HTTP ''
                 @ str_int (status_code resp) @ '')'')))
      | Some data \<Rightarrow>
          if status_code resp = 401 then raise_get OshiAuthError data ''Invalid bot token''
          else if status_code resp = 403 then
            raise_get OshiGroupError data ''Bot not assigned to group''
          else if status_code resp = 404 then raise_get OshiBotError data ''Not found''
          else if status_code resp \<ge> 400 then
            raise_get OshiBotError data (''HTTP '' @ str_int (status_code resp))
          else Inr data)"

text \<open>
  The block \<open>if resp.status_code == 429\<close>, entered with the first response: it returns
  the response that \<open>resp\<close> is bound to afterwards. An exception of the second
  \<open>session.request\<close> is caught by \<open>except Exception: pass\<close> and \<open>resp\<close> keeps the first
  response.
\<close>

definition retry_request ::
  "network \<Rightarrow> request \<Rightarrow> response \<Rightarrow> state \<Rightarrow> response \<times> state" where
  "retry_request net req resp s =
     (if auto_retry (client s) then
        let s1 = logger_warning ''Rate limited, waiting 5s before retry...'' s;
            s2 = time_sleep 5 s1;
            (r, s3) = session_request net req s2
        in (case r of Inl e \<Rightarrow> (resp, s3) | Inr resp2 \<Rightarrow> (resp2, s3))
      else (resp, s))"

definition OshiBot_request ::
  "network \<Rightarrow> string \<Rightarrow> string \<Rightarrow> kwargs \<Rightarrow> state \<Rightarrow> (exn + json) \<times> state" where
  "OshiBot_request net meth endpoint kw s =
     (let url = base_url (client s) @ endpoint;
          kw1 = setdefault_timeout kw (timeout (client s));
          req = \<lparr>req_method = meth, req_url = url, req_kwargs = kw1\<rparr>;
          (r, s1) = session_request net req s
      in case r of
           Inl ConnectionError \<Rightarrow>
             (Inl (OshiBotError (JStr (''Connection failed: '' @ url))), s1)
         | Inl ConnectTimeout \<Rightarrow>
             (Inl (OshiBotError (JStr (''Connection failed: '' @ url))), s1)
         | Inl Timeout \<Rightarrow>
             (Inl (OshiBotError (JStr (''Request timed out after ''
                     @ str_int (timeout (client s1)) @ ''s''))), s1)
         | Inl OtherException \<Rightarrow> (Inl (Unhandled OtherException), s1)
         | Inr resp \<Rightarrow>
             if status_code resp = 429 then
               let (resp2, s2) = retry_request net req resp s1
               in if status_code resp2 = 429 then
                    (Inl (OshiRateLimitError (JStr ''Rate limit: max 60 messages/minute'')), s2)
                  else (handle_response resp2, s2)
             else (handle_response resp, s1))"

subsection \<open>Core API methods\<close>

text \<open>
  Each method builds its payload and delegates to \<open>_request\<close>. Python does not enforce
  the hint \<open>group_id: str\<close>: \<open>send_to_all_groups\<close> passes \<open>group["id"]\<close> as parsed, so
  the group identifier is a parsed value here.
\<close>

definition send :: "network \<Rightarrow> json \<Rightarrow> string \<Rightarrow> state \<Rightarrow> (exn + json) \<times> state" where
  "send net group_id content s =
     (let payload = JObj [(''token'', JStr (token (client s))),
                          (''groupId'', group_id),
                          (''content'', JStr content)]
      in OshiBot_request net ''POST'' ''/api/bot/send''
           \<lparr>kw_json = Some payload, kw_params = None, kw_timeout = None\<rparr> s)"

definition info :: "network \<Rightarrow> state \<Rightarrow> (exn + json) \<times> state" where
  "info net s =
     OshiBot_request net ''GET'' ''/api/bot/info''
       \<lparr>kw_json = None, kw_params = Some [(''token'', token (client s))], kw_timeout = None\<rparr> s"

text \<open>\<open>groups or []\<close>: \<open>None\<close> and the empty list both give the empty list.\<close>

definition register ::
  "network \<Rightarrow> string \<Rightarrow> string \<Rightarrow> json list option \<Rightarrow> state \<Rightarrow> (exn + json) \<times> state" where
  "register net bot_name owner_public_key groups s =
     (let payload = JObj [(''token'', JStr (token (client s))),
                          (''botName'', JStr bot_name),
                          (''ownerPublicKey'', JStr owner_public_key),
                          (''groups'', JArr (case groups of None \<Rightarrow> [] | Some gs \<Rightarrow> gs))]
      in OshiBot_request net ''POST'' ''/api/bot/register''
           \<lparr>kw_json = Some payload, kw_params = None, kw_timeout = None\<rparr> s)"

definition update_groups :: "network \<Rightarrow> json list \<Rightarrow> state \<Rightarrow> (exn + json) \<times> state" where
  "update_groups net groups s =
     (let payload = JObj [(''token'', JStr (token (client s))), (''groups'', JArr groups)]
      in OshiBot_request net ''POST'' ''/api/bot/update-groups''
           \<lparr>kw_json = Some payload, kw_params = None, kw_timeout = None\<rparr> s)"

definition unregister :: "network \<Rightarrow> state \<Rightarrow> (exn + json) \<times> state" where
  "unregister net s =
     OshiBot_request net ''DELETE'' ''/api/bot/unregister''
       \<lparr>kw_json = None, kw_params = Some [(''token'', token (client s))], kw_timeout = None\<rparr> s"

definition list_bots :: "network \<Rightarrow> state \<Rightarrow> (exn + json) \<times> state" where
  "list_bots net s =
     OshiBot_request net ''GET'' ''/api/bot/list''
       \<lparr>kw_json = None, kw_params = None, kw_timeout = None\<rparr> s"

subsection \<open>Convenience methods\<close>

text \<open>
  \<open>str(e)\<close> of an exception with one argument is \<open>str\<close> of the argument: a string is
  itself; for any other parsed value it is Python's built-in rendering, which is not
  part of the SDK and is the parameter \<open>py_str\<close>.
\<close>

definition exn_str :: "(json \<Rightarrow> string) \<Rightarrow> exn \<Rightarrow> string" where
  "exn_str py_str e =
     (case exn_arg e of
        Some (JStr m) \<Rightarrow> m
      | Some v \<Rightarrow> py_str v
      | None \<Rightarrow> [])"

text \<open>
  The loop of \<open>send_to_all_groups\<close> over the groups still to visit, with the \<open>results\<close>
  list built so far. \<open>group["id"]\<close> is evaluated inside the \<open>try\<close>, but what it raises
  is no \<open>OshiBotError\<close> and leaves the loop, as does any other exception of \<open>send\<close> that
  the \<open>except\<close> clause does not catch.
\<close>

fun send_each ::
  "network \<Rightarrow> (json \<Rightarrow> string) \<Rightarrow> string \<Rightarrow> json list \<Rightarrow> json list \<Rightarrow> state
     \<Rightarrow> (exn + json list) \<times> state" where
  "send_each net py_str content [] results s = (Inr results, s)"
| "send_each net py_str content (grp # groups) results s =
     (case getitem grp ''id'' of
        Inl e \<Rightarrow> (Inl e, s)
      | Inr gid \<Rightarrow>
          (case send net gid content s of
             (Inr result, s1) \<Rightarrow>
               send_each net py_str content groups (results @ [result]) s1
           | (Inl e, s1) \<Rightarrow>
               if is_OshiBotError e then
                 send_each net py_str content groups
                   (results @ [JObj [(''success'', JBool False),
                                     (''groupId'', gid),
                                     (''error'', JStr (exn_str py_str e))]]) s1
               else (Inl e, s1)))"

text \<open>\<open>bot_info.get("bot", {}).get(key, dflt)\<close>\<close>

definition bot_field :: "json \<Rightarrow> string \<Rightarrow> json \<Rightarrow> exn + json" where
  "bot_field bot_info key dflt =
     (case dict_get bot_info ''bot'' (JObj []) of
        Inl e \<Rightarrow> Inl e
      | Inr b \<Rightarrow> dict_get b key dflt)"

definition send_to_all_groups ::
  "network \<Rightarrow> (json \<Rightarrow> string) \<Rightarrow> string \<Rightarrow> state \<Rightarrow> (exn + json list) \<times> state" where
  "send_to_all_groups net py_str content s =
     (case info net s of
        (Inl e, s1) \<Rightarrow> (Inl e, s1)
      | (Inr bot_info, s1) \<Rightarrow>
          (case bot_field bot_info ''groups'' (JArr []) of
             Inl e \<Rightarrow> (Inl e, s1)
           | Inr gs \<Rightarrow>
               (case iterate gs of
                  Inl e \<Rightarrow> (Inl e, s1)
                | Inr groups \<Rightarrow> send_each net py_str content groups [] s1)))"

definition get_groups :: "network \<Rightarrow> state \<Rightarrow> (exn + json) \<times> state" where
  "get_groups net s =
     (case info net s of
        (Inl e, s1) \<Rightarrow> (Inl e, s1)
      | (Inr bot_info, s1) \<Rightarrow> (bot_field bot_info ''groups'' (JArr []), s1))"

definition get_stats :: "network \<Rightarrow> state \<Rightarrow> (exn + json) \<times> state" where
  "get_stats net s =
     (case info net s of
        (Inl e, s1) \<Rightarrow> (Inl e, s1)
      | (Inr bot_info, s1) \<Rightarrow> (bot_field bot_info ''stats'' (JObj []), s1))"

section \<open>Notions used to state the properties\<close>

text \<open>The request that \<open>_request\<close> hands to the session for given arguments.\<close>

definition request_of :: "OshiBot \<Rightarrow> string \<Rightarrow> string \<Rightarrow> kwargs \<Rightarrow> request" where
  "request_of self meth endpoint kw =
     \<lparr>req_method = meth, req_url = base_url self @ endpoint,
      req_kwargs = setdefault_timeout kw (timeout self)\<rparr>"

text \<open>The message the server supplied: the value under \<open>"error"\<close> of a dict body.\<close>

definition server_message :: "json \<Rightarrow> json option" where
  "server_message data = (case data of JObj kvs \<Rightarrow> map_of kvs ''error'' | _ \<Rightarrow> None)"

fun is_dict :: "json \<Rightarrow> bool" where
  "is_dict (JObj kvs) = True"
| "is_dict v = False"

definition message_or :: "json \<Rightarrow> string \<Rightarrow> json" where
  "message_or data dflt = (case server_message data of Some m \<Rightarrow> m | None \<Rightarrow> JStr dflt)"

text \<open>The events of a call that retries once, and of one that does not.\<close>

definition retried_trace :: "request \<Rightarrow> event list" where
  "retried_trace req =
     [Request req, Warning ''Rate limited, waiting 5s before retry...'', Sleep 5, Request req]"

definition rate_limit_error :: exn where
  "rate_limit_error = OshiRateLimitError (JStr ''Rate limit: max 60 messages/minute'')"

text \<open>
  What \<open>resp\<close> is bound to when \<open>_request\<close> leaves the rate-limit block: the exception of
  the first attempt if it raised, else the response of the retry if there was one and it
  got a response, else the first response.
\<close>

definition examined :: "network \<Rightarrow> state \<Rightarrow> request \<Rightarrow> request_exception + response" where
  "examined net s req =
     (case net (attempts (trace s)) req of
        Inl x \<Rightarrow> Inl x
      | Inr r1 \<Rightarrow>
          if status_code r1 = 429 \<and> auto_retry (client s) then
            (case net (Suc (attempts (trace s))) req of Inl x \<Rightarrow> Inr r1 | Inr r2 \<Rightarrow> Inr r2)
          else Inr r1)"

text \<open>
  For \<open>send_to_all_groups\<close>. An outcome of \<open>send\<close> that the loop survives: a body, or an
  exception that \<open>except OshiBotError\<close> catches. The entry the loop appends for an
  outcome. The outcome of the send to the k-th group: \<open>send\<close> run in the state that the
  loop, entered with the list \<open>acc\<close> of results, has reached after the first k groups.
\<close>

definition classified :: "exn + json \<Rightarrow> bool" where
  "classified r = (case r of Inr body \<Rightarrow> True | Inl e \<Rightarrow> is_OshiBotError e)"

definition result_entry :: "(json \<Rightarrow> string) \<Rightarrow> json \<Rightarrow> exn + json \<Rightarrow> json" where
  "result_entry py_str gid r =
     (case r of
        Inr body \<Rightarrow> body
      | Inl e \<Rightarrow> JObj [(''success'', JBool False), (''groupId'', gid),
                        (''error'', JStr (exn_str py_str e))])"

definition kth_send ::
  "network \<Rightarrow> (json \<Rightarrow> string) \<Rightarrow> string \<Rightarrow> json list \<Rightarrow> json list \<Rightarrow> json list \<Rightarrow> state
     \<Rightarrow> nat \<Rightarrow> exn + json" where
  "kth_send net py_str content groups gids acc s k =
     fst (send net (gids ! k) content
            (snd (send_each net py_str content (take k groups) acc s)))"

subsection \<open>Test scenarios\<close>

text \<open>
  A server that answers the requests of a run from a script, and refuses the connection
  once the script is used up.
\<close>

definition scripted :: "(request_exception + response) list \<Rightarrow> network" where
  "scripted answers n req = (if n < length answers then answers ! n else Inl ConnectionError)"

definition fresh :: "OshiBot \<Rightarrow> state" where
  "fresh self = \<lparr>client = self, trace = []\<rparr>"

definition no_kwargs :: kwargs where
  "no_kwargs = \<lparr>kw_json = None, kw_params = None, kw_timeout = None\<rparr>"

text \<open>The client of the class docstring, and the same client with retries switched off.\<close>

definition doc_bot :: OshiBot where
  "doc_bot = OshiBot_init ''a1b2c3d4e5f6g7h8i9j0k1l2m3n4o5p6'' ''https://oshi-messenger.com'' 10 True"

definition doc_bot_no_retry :: OshiBot where
  "doc_bot_no_retry =
     OshiBot_init ''a1b2c3d4e5f6g7h8i9j0k1l2m3n4o5p6'' ''https://oshi-messenger.com'' 10 False"

definition list_request :: request where
  "list_request =
     \<lparr>req_method = ''GET'', req_url = ''https://oshi-messenger.com/api/bot/list'',
      req_kwargs = \<lparr>kw_json = None, kw_params = None, kw_timeout = Some 10\<rparr>\<rparr>"

definition too_many :: response where
  "too_many = \<lparr>status_code = 429, json_body = Some (JObj [(''error'', JStr ''Too many requests'')])\<rparr>"

definition ok_body :: json where
  "ok_body = JObj [(''count'', JInt 0), (''bots'', JArr [])]"

definition ok_response :: response where
  "ok_response = \<lparr>status_code = 200, json_body = Some ok_body\<rparr>"

definition unauthorized :: response where
  "unauthorized =
     \<lparr>status_code = 401, json_body = Some (JObj [(''error'', JStr ''Unknown bot token'')])\<rparr>"

definition forbidden :: response where
  "forbidden = \<lparr>status_code = 403, json_body = Some (JObj [(''success'', JBool False)])\<rparr>"

definition not_found :: response where
  "not_found = \<lparr>status_code = 404, json_body = Some (JObj [])\<rparr>"

definition server_error :: response where
  "server_error = \<lparr>status_code = 500, json_body = Some (JObj [(''error'', JStr ''Not found'')])\<rparr>"

definition bad_gateway :: response where
  "bad_gateway = \<lparr>status_code = 502, json_body = Some (JObj [])\<rparr>"

definition html_page :: response where
  "html_page = \<lparr>status_code = 401, json_body = None\<rparr>"

text \<open>Bodies that parse as JSON but are no objects: the array \<open>[]\<close> and a bare string.\<close>

definition array_error :: response where
  "array_error = \<lparr>status_code = 500, json_body = Some (JArr [])\<rparr>"

definition string_unauthorized :: response where
  "string_unauthorized = \<lparr>status_code = 401, json_body = Some (JStr ''Unauthorized'')\<rparr>"

definition misleading_401 :: response where
  "misleading_401 =
     \<lparr>status_code = 401, json_body = Some (JObj [(''error'', JStr ''Bot not assigned to group'')])\<rparr>"

text \<open>
  A bot assigned to three groups, of which the server refuses the second one. \<open>plain_str\<close>
  stands for Python's \<open>str\<close> on values that are no strings; no scenario calls it.
\<close>

definition plain_str :: "json \<Rightarrow> string" where
  "plain_str v = ''<value>''"

definition group_a :: json where
  "group_a = JObj [(''id'', JStr ''group-a''), (''name'', JStr ''Alerts''), (''memberCount'', JInt 3)]"

definition group_b :: json where
  "group_b = JObj [(''id'', JStr ''group-b''), (''name'', JStr ''Private''), (''memberCount'', JInt 7)]"

definition group_c :: json where
  "group_c = JObj [(''id'', JStr ''group-c''), (''name'', JStr ''News''), (''memberCount'', JInt 2)]"

definition info_body :: json where
  "info_body =
     JObj [(''success'', JBool True),
           (''bot'', JObj [(''botName'', JStr ''Alert Bot''),
                           (''groups'', JArr [group_a, group_b, group_c])])]"

definition delivered_body :: json where
  "delivered_body = JObj [(''success'', JBool True), (''delivered'', JInt 3)]"

definition broadcast_net :: network where
  "broadcast_net =
     scripted [Inr \<lparr>status_code = 200, json_body = Some info_body\<rparr>,
               Inr \<lparr>status_code = 200, json_body = Some delivered_body\<rparr>,
               Inr forbidden,
               Inr \<lparr>status_code = 200, json_body = Some delivered_body\<rparr>]"

section \<open>Basic facts\<close>

lemma attempts_simps:
  "attempts [] = 0"
  "attempts (Request r # tr) = Suc (attempts tr)"
  "attempts (Warning w # tr) = attempts tr"
  "attempts (Sleep n # tr) = attempts tr"
  "attempts (tr @ tr') = attempts tr + attempts tr'"
  by (simp_all add: attempts_def)

lemma doc_bot_fields:
  "auto_retry doc_bot" "\<not> auto_retry doc_bot_no_retry"
  "timeout doc_bot = 10" "base_url doc_bot = ''https://oshi-messenger.com''"
  by (simp_all add: doc_bot_def doc_bot_no_retry_def OshiBot_init_def rstrip_slash_def)

lemma request_of_doc:
  "request_of doc_bot ''GET'' ''/api/bot/list'' no_kwargs = list_request"
  "request_of doc_bot_no_retry ''GET'' ''/api/bot/list'' no_kwargs = list_request"
  by (simp_all add: doc_bot_no_retry_def request_of_def doc_bot_def OshiBot_init_def
      rstrip_slash_def no_kwargs_def list_request_def setdefault_timeout_def)

lemmas scenario_defs =
  fresh_def scripted_def attempts_def request_of_doc doc_bot_fields
  too_many_def ok_response_def unauthorized_def forbidden_def not_found_def server_error_def
  bad_gateway_def html_page_def array_error_def string_unauthorized_def misleading_401_def


lemma str_int_401: "str_int 401 = ''401''"
  by (simp add: str_int_def str_nat.simps)


subsection \<open>The result and the trace of \<open>_request\<close>, case by case\<close>

lemma request_result:
  "fst (OshiBot_request net meth endpoint kw s) =
     (case net (attempts (trace s)) (request_of (client s) meth endpoint kw) of
        Inl x \<Rightarrow>
          (case x of
             Timeout \<Rightarrow> Inl (OshiBotError (JStr (''Request timed out after ''
                          @ str_int (timeout (client s)) @ ''s'')))
           | OtherException \<Rightarrow> Inl (Unhandled OtherException)
           | _ \<Rightarrow> Inl (OshiBotError (JStr (''Connection failed: ''
                          @ base_url (client s) @ endpoint))))
      | Inr r1 \<Rightarrow>
          if status_code r1 = 429 then
            if auto_retry (client s) then
              (case net (Suc (attempts (trace s))) (request_of (client s) meth endpoint kw) of
                 Inl x \<Rightarrow> Inl rate_limit_error
               | Inr r2 \<Rightarrow>
                   if status_code r2 = 429 then Inl rate_limit_error else handle_response r2)
            else Inl rate_limit_error
          else handle_response r1)"
  by (simp add: OshiBot_request_def session_request_def retry_request_def Let_def
      logger_warning_def time_sleep_def attempts_simps request_of_def rate_limit_error_def
      split: sum.split request_exception.split)

lemma request_trace:
  "snd (OshiBot_request net meth endpoint kw s) =
     s\<lparr>trace := trace s @
        (case net (attempts (trace s)) (request_of (client s) meth endpoint kw) of
           Inl x \<Rightarrow> [Request (request_of (client s) meth endpoint kw)]
         | Inr r1 \<Rightarrow>
             if status_code r1 = 429 \<and> auto_retry (client s)
             then retried_trace (request_of (client s) meth endpoint kw)
             else [Request (request_of (client s) meth endpoint kw)])\<rparr>"
  by (simp add: OshiBot_request_def session_request_def retry_request_def Let_def
      logger_warning_def time_sleep_def attempts_simps request_of_def retried_trace_def
      split: sum.split request_exception.split)

lemma handle_response_dict:
  assumes "json_body resp = Some data" and "is_dict data"
  shows "handle_response resp =
     (if status_code resp = 401 then Inl (OshiAuthError (message_or data ''Invalid bot token''))
      else if status_code resp = 403 then
        Inl (OshiGroupError (message_or data ''Bot not assigned to group''))
      else if status_code resp = 404 then Inl (OshiBotError (message_or data ''Not found''))
      else if 400 \<le> status_code resp then
        Inl (OshiBotError (message_or data (''HTTP '' @ str_int (status_code resp))))
      else Inr data)"
  using assms
  by (cases data)
    (simp_all add: handle_response_def raise_get_def dict_get_def message_or_def
      server_message_def split: option.split)

lemma handle_response_success:
  assumes "json_body resp = Some data" and "status_code resp < 400"
  shows "handle_response resp = Inr data"
  using assms by (simp add: handle_response_def)

lemma handle_response_unparsed:
  assumes "json_body resp = None"
  shows "handle_response resp =
           Inl (OshiBotError (JStr (''Invalid response from server (HTTP ''
                  @ str_int (status_code resp) @ '')'')))"
  using assms by (simp add: handle_response_def)



lemma request_via_examined:
  "fst (OshiBot_request net meth endpoint kw s) =
     (case examined net s (request_of (client s) meth endpoint kw) of
        Inl x \<Rightarrow>
          (case x of
             Timeout \<Rightarrow> Inl (OshiBotError (JStr (''Request timed out after ''
                          @ str_int (timeout (client s)) @ ''s'')))
           | OtherException \<Rightarrow> Inl (Unhandled OtherException)
           | _ \<Rightarrow> Inl (OshiBotError (JStr (''Connection failed: ''
                          @ base_url (client s) @ endpoint))))
      | Inr resp \<Rightarrow>
          if status_code resp = 429 then Inl rate_limit_error else handle_response resp)"
  by (simp add: request_result examined_def split: sum.split)

lemma raise_get_raises [simp]: "raise_get C data dflt \<noteq> Inr d"
  by (simp add: raise_get_def split: sum.split)








subsection \<open>The client object is passed through\<close>

lemma request_client [simp]:
  "client (snd (OshiBot_request net meth endpoint kw s)) = client s"
  by (simp add: request_trace)

lemma send_client [simp]: "client (snd (send net gid content s)) = client s"
  by (simp add: send_def)

lemma info_client [simp]: "client (snd (info net s)) = client s"
  by (simp add: info_def)

lemma send_each_client:
  "client (snd (send_each net py_str content groups results s)) = client s"
proof (induction groups arbitrary: results s)
  case Nil
  show ?case by simp
next
  case (Cons g groups)
  show ?case
  proof (cases "getitem g ''id''")
    case (Inl e)
    then show ?thesis by simp
  next
    case (Inr gid)
    obtain r s1 where sent: "send net gid content s = (r, s1)"
      by (cases "send net gid content s")
    then have "client s1 = client s"
      using send_client [of net gid content s] by simp
    with Inr sent Cons.IH show ?thesis
      by (cases r) simp_all
  qed
qed

lemma send_to_all_groups_client:
  "client (snd (send_to_all_groups net py_str content s)) = client s"
proof -
  obtain r s1 where got: "info net s = (r, s1)"
    by (cases "info net s")
  then have "client s1 = client s"
    using info_client [of net s] by simp
  with got show ?thesis
    by (simp add: send_to_all_groups_def send_each_client split: sum.split)
qed

lemma get_groups_client: "client (snd (get_groups net s)) = client s"
proof -
  obtain r s1 where got: "info net s = (r, s1)"
    by (cases "info net s")
  then have "client s1 = client s"
    using info_client [of net s] by simp
  with got show ?thesis
    by (simp add: get_groups_def split: sum.split)
qed

lemma get_stats_client: "client (snd (get_stats net s)) = client s"
proof -
  obtain r s1 where got: "info net s = (r, s1)"
    by (cases "info net s")
  then have "client s1 = client s"
    using info_client [of net s] by simp
  with got show ?thesis
    by (simp add: get_stats_def split: sum.split)
qed

subsection \<open>The loop of \<open>send_to_all_groups\<close>\<close>

lemma upt_Suc_map: "[0..<Suc n] = 0 # map Suc [0..<n]"
  by (simp add: upt_conv_Cons map_Suc_upt del: upt_Suc)

lemma send_each_step:
  assumes "getitem g ''id'' = Inr gid"
    and "send net gid content s = (r, s1)"
    and "classified r"
  shows "send_each net py_str content (g # groups) acc s
           = send_each net py_str content groups (acc @ [result_entry py_str gid r]) s1"
  using assms by (cases r) (simp_all add: classified_def result_entry_def)

lemma send_each_entries:
  assumes "map (\<lambda>g. getitem g ''id'') groups = map Inr gids"
    and "\<forall>k<length groups. classified (kth_send net py_str content groups gids acc s k)"
  shows "fst (send_each net py_str content groups acc s)
           = Inr (acc @ map (\<lambda>k. result_entry py_str (gids ! k)
                                (kth_send net py_str content groups gids acc s k))
                          [0..<length groups])"
  using assms
proof (induction groups arbitrary: gids acc s)
  case Nil
  show ?case by simp
next
  case (Cons g groups)
  from Cons.prems(1) obtain gid gids' where gids: "gids = gid # gids'"
    and gid: "getitem g ''id'' = Inr gid"
    and rest: "map (\<lambda>g. getitem g ''id'') groups = map Inr gids'"
    by (cases gids) auto
  obtain r s1 where sent: "send net gid content s = (r, s1)"
    by (cases "send net gid content s")
  have first: "kth_send net py_str content (g # groups) gids acc s 0 = r"
    by (simp add: kth_send_def gids sent)
  with Cons.prems(2) have cl: "classified r"
    by auto
  let ?acc = "acc @ [result_entry py_str gid r]"
  have step: "send_each net py_str content (g # gs) acc s
                = send_each net py_str content gs ?acc s1" for gs
    using gid sent cl by (rule send_each_step)
  have later: "kth_send net py_str content (g # groups) gids acc s (Suc k)
                 = kth_send net py_str content groups gids' ?acc s1 k" for k
    by (simp add: kth_send_def gids step del: send_each.simps)
  have "\<forall>k<length groups. classified (kth_send net py_str content groups gids' ?acc s1 k)"
  proof (intro allI impI)
    fix k assume "k < length groups"
    then have "Suc k < length (g # groups)" by simp
    with Cons.prems(2) have "classified (kth_send net py_str content (g # groups) gids acc s (Suc k))"
      by blast
    then show "classified (kth_send net py_str content groups gids' ?acc s1 k)"
      by (simp only: later)
  qed
  with rest have "fst (send_each net py_str content groups ?acc s1)
      = Inr (?acc @ map (\<lambda>k. result_entry py_str (gids' ! k)
                                (kth_send net py_str content groups gids' ?acc s1 k))
                          [0..<length groups])"
    by (rule Cons.IH)
  then show ?case
    by (simp add: step upt_Suc_map first [unfolded gids] later [unfolded gids] gids
        del: upt_Suc send_each.simps)
qed

lemma broadcast_info:
  "info broadcast_net (fresh doc_bot)
     = (Inr info_body, snd (info broadcast_net (fresh doc_bot)))"
  by (rule prod_eqI)
    (simp_all add: info_def request_result broadcast_net_def scripted_def fresh_def
      attempts_def handle_response_def)

lemmas broadcast_defs =
  send_to_all_groups_def info_def send_def OshiBot_request_def
  session_request_def retry_request_def handle_response_def raise_get_def dict_get_def
  Let_def broadcast_net_def scripted_def attempts_def fresh_def bot_field_def iterate_def
  getitem_def info_body_def group_a_def group_b_def group_c_def forbidden_def
  exn_str_def setdefault_timeout_def

lemma broadcast_sends:
  "kth_send broadcast_net plain_str content [group_a, group_b, group_c]
        [JStr ''group-a'', JStr ''group-b'', JStr ''group-c''] []
        (snd (info broadcast_net (fresh doc_bot))) 0 = Inr delivered_body"
  "kth_send broadcast_net plain_str content [group_a, group_b, group_c]
        [JStr ''group-a'', JStr ''group-b'', JStr ''group-c''] []
        (snd (info broadcast_net (fresh doc_bot))) (Suc 0)
       = Inl (OshiGroupError (JStr ''Bot not assigned to group''))"
  "kth_send broadcast_net plain_str content [group_a, group_b, group_c]
        [JStr ''group-a'', JStr ''group-b'', JStr ''group-c''] []
        (snd (info broadcast_net (fresh doc_bot))) (Suc (Suc 0)) = Inr delivered_body"
  by (simp_all add: broadcast_defs kth_send_def)

lemma broadcast_result:
  "fst (send_to_all_groups broadcast_net plain_str content (fresh doc_bot))
     = Inr [delivered_body,
            JObj [(''success'', JBool False), (''groupId'', JStr ''group-b''),
                  (''error'', JStr ''Bot not assigned to group'')],
            delivered_body]"
  by (simp add: broadcast_defs)

lemma broadcast_groups:
  "bot_field info_body ''groups'' (JArr []) = Inr (JArr [group_a, group_b, group_c])"
  "map (\<lambda>g. getitem g ''id'') [group_a, group_b, group_c]
     = map Inr [JStr ''group-a'', JStr ''group-b'', JStr ''group-c'']"
  by (simp_all add: bot_field_def dict_get_def info_body_def getitem_def group_a_def
      group_b_def group_c_def)


section \<open>Rate limiting and the single retry\<close>

text \<open>
  C3. When the first response has status 429, the call fails with the rate-limit error.
  With the retry flag set and a second 429, the session is asked exactly twice: the
  request, the warning, a sleep of 5 seconds, the identical request again. With the flag
  off it is asked exactly once.
\<close>

theorem rate_limit_attempts:
  assumes "net (attempts (trace s)) (request_of (client s) meth endpoint kw) = Inr r1"
    and "status_code r1 = 429"
    and "auto_retry (client s) \<longrightarrow>
           net (Suc (attempts (trace s))) (request_of (client s) meth endpoint kw) = Inr r2
           \<and> status_code r2 = 429"
  shows "OshiBot_request net meth endpoint kw s =
           (Inl rate_limit_error,
            s\<lparr>trace := trace s @
                 (if auto_retry (client s)
                  then retried_trace (request_of (client s) meth endpoint kw)
                  else [Request (request_of (client s) meth endpoint kw)])\<rparr>)
         \<and> attempts (trace (snd (OshiBot_request net meth endpoint kw s)))
             = attempts (trace s) + (if auto_retry (client s) then 2 else 1)"
  using assms
  by (simp add: OshiBot_request_def session_request_def retry_request_def Let_def
      logger_warning_def time_sleep_def attempts_simps request_of_def retried_trace_def
      rate_limit_error_def)

theorem rate_limit_attempts_witness:
  "auto_retry doc_bot \<and> \<not> auto_retry doc_bot_no_retry \<and> status_code too_many = 429
   \<and> OshiBot_request (scripted [Inr too_many, Inr too_many]) ''GET'' ''/api/bot/list''
         no_kwargs (fresh doc_bot)
       = (Inl rate_limit_error, \<lparr>client = doc_bot, trace = retried_trace list_request\<rparr>)
   \<and> OshiBot_request (scripted [Inr too_many]) ''GET'' ''/api/bot/list''
         no_kwargs (fresh doc_bot_no_retry)
       = (Inl rate_limit_error,
          \<lparr>client = doc_bot_no_retry, trace = [Request list_request]\<rparr>)"
  using rate_limit_attempts [of "scripted [Inr too_many, Inr too_many]" "fresh doc_bot"
      "''GET''" "''/api/bot/list''" no_kwargs too_many too_many]
    rate_limit_attempts [of "scripted [Inr too_many]" "fresh doc_bot_no_retry"
      "''GET''" "''/api/bot/list''" no_kwargs too_many too_many]
  by (simp add: fresh_def request_of_doc attempts_def scripted_def too_many_def doc_bot_fields)

text \<open>
  C4. A 429 answered on the retry by a 200 whose body parses: the call succeeds and
  returns the parsed body of the second response.
\<close>

theorem retry_then_success:
  assumes "auto_retry (client s)"
    and "net (attempts (trace s)) (request_of (client s) meth endpoint kw) = Inr r1"
    and "status_code r1 = 429"
    and "net (Suc (attempts (trace s))) (request_of (client s) meth endpoint kw) = Inr r2"
    and "status_code r2 = 200"
    and "json_body r2 = Some body"
  shows "OshiBot_request net meth endpoint kw s =
           (Inr body,
            s\<lparr>trace := trace s @ retried_trace (request_of (client s) meth endpoint kw)\<rparr>)"
  using assms
  by (simp add: OshiBot_request_def session_request_def retry_request_def Let_def
      logger_warning_def time_sleep_def attempts_simps request_of_def handle_response_def
      retried_trace_def)

theorem retry_then_success_witness:
  "auto_retry (client (fresh doc_bot)) \<and> status_code too_many = 429
   \<and> status_code ok_response = 200 \<and> json_body ok_response = Some ok_body
   \<and> OshiBot_request (scripted [Inr too_many, Inr ok_response]) ''GET'' ''/api/bot/list''
         no_kwargs (fresh doc_bot)
       = (Inr ok_body, \<lparr>client = doc_bot, trace = retried_trace list_request\<rparr>)"
  using retry_then_success [of "fresh doc_bot" "scripted [Inr too_many, Inr ok_response]"
      "''GET''" "''/api/bot/list''" no_kwargs too_many ok_response ok_body]
  by (simp add: fresh_def request_of_doc attempts_def scripted_def too_many_def
      ok_response_def doc_bot_fields)

text \<open>
  C10. A 429 whose retry raises in the transport, whatever the exception: the exception
  is dropped, the first response is still the one examined, and the call fails with the
  rate-limit error, not with the base error of a transport failure.
\<close>

theorem retry_exception_suppressed:
  assumes "auto_retry (client s)"
    and "net (attempts (trace s)) (request_of (client s) meth endpoint kw) = Inr r1"
    and "status_code r1 = 429"
    and "net (Suc (attempts (trace s))) (request_of (client s) meth endpoint kw) = Inl x"
  shows "OshiBot_request net meth endpoint kw s =
           (Inl rate_limit_error,
            s\<lparr>trace := trace s @ retried_trace (request_of (client s) meth endpoint kw)\<rparr>)
         \<and> fst (OshiBot_request net meth endpoint kw s) \<noteq> Inl (OshiBotError m)"
  using assms
  by (simp add: OshiBot_request_def session_request_def retry_request_def Let_def
      logger_warning_def time_sleep_def attempts_simps request_of_def retried_trace_def
      rate_limit_error_def)

theorem retry_exception_suppressed_witness:
  "auto_retry (client (fresh doc_bot)) \<and> status_code too_many = 429
   \<and> OshiBot_request (scripted [Inr too_many, Inl Timeout]) ''GET'' ''/api/bot/list''
         no_kwargs (fresh doc_bot)
       = (Inl rate_limit_error, \<lparr>client = doc_bot, trace = retried_trace list_request\<rparr>)"
  using retry_exception_suppressed [of "fresh doc_bot" "scripted [Inr too_many, Inl Timeout]"
      "''GET''" "''/api/bot/list''" no_kwargs too_many Timeout]
  by (simp add: fresh_def request_of_doc attempts_def scripted_def too_many_def doc_bot_fields)

section \<open>Classification by status code\<close>

subsection \<open>Bodies that are JSON objects\<close>

text \<open>
  The response that \<open>_request\<close> examines has a status other than 429 and a body that
  parses. If the status is 400 or more and the body is a JSON object, the call raises by
  status: 401 the Auth error, 403 the GroupAssignment error, 404 the NotFound error,
  anything else the generic error; the message is the value under \<open>"error"\<close> when the
  object has one, and the default of that status otherwise. If the status is below 400
  the call returns the parsed body, whatever JSON value it is.
\<close>

lemma object_body_classification:
  assumes "examined net s (request_of (client s) meth endpoint kw) = Inr resp"
    and "status_code resp \<noteq> 429"
    and "json_body resp = Some data"
    and "400 \<le> status_code resp \<longrightarrow> is_dict data"
  shows "fst (OshiBot_request net meth endpoint kw s) =
     (if status_code resp = 401 then Inl (OshiAuthError (message_or data ''Invalid bot token''))
      else if status_code resp = 403 then
        Inl (OshiGroupError (message_or data ''Bot not assigned to group''))
      else if status_code resp = 404 then Inl (OshiBotError (message_or data ''Not found''))
      else if 400 \<le> status_code resp then
        Inl (OshiBotError (message_or data (''HTTP '' @ str_int (status_code resp))))
      else Inr data)"
proof -
  have final: "fst (OshiBot_request net meth endpoint kw s) = handle_response resp"
    using assms(1,2) by (simp add: request_via_examined)
  show ?thesis
  proof (cases "400 \<le> status_code resp")
    case True
    with assms(3,4) show ?thesis
      unfolding final by (simp add: handle_response_dict)
  next
    case False
    with assms(3) show ?thesis
      unfolding final by (simp add: handle_response_success)
  qed
qed

lemma object_body_classification_examples:
  "fst (OshiBot_request (scripted [Inr unauthorized]) ''GET'' ''/api/bot/list'' no_kwargs
         (fresh doc_bot)) = Inl (OshiAuthError (JStr ''Unknown bot token''))
   \<and> fst (OshiBot_request (scripted [Inr forbidden]) ''GET'' ''/api/bot/list'' no_kwargs
         (fresh doc_bot)) = Inl (OshiGroupError (JStr ''Bot not assigned to group''))
   \<and> fst (OshiBot_request (scripted [Inr not_found]) ''GET'' ''/api/bot/list'' no_kwargs
         (fresh doc_bot)) = Inl (OshiBotError (JStr ''Not found''))
   \<and> fst (OshiBot_request (scripted [Inr bad_gateway]) ''GET'' ''/api/bot/list'' no_kwargs
         (fresh doc_bot)) = Inl (OshiBotError (JStr ''HTTP 502''))
   \<and> fst (OshiBot_request (scripted [Inr ok_response]) ''GET'' ''/api/bot/list'' no_kwargs
         (fresh doc_bot)) = Inr ok_body
   \<and> fst (OshiBot_request (scripted [Inr too_many, Inr forbidden]) ''GET'' ''/api/bot/list''
         no_kwargs (fresh doc_bot)) = Inl (OshiGroupError (JStr ''Bot not assigned to group''))"
  using
    object_body_classification [of "scripted [Inr unauthorized]" "fresh doc_bot" "''GET''"
      "''/api/bot/list''" no_kwargs unauthorized
      "JObj [(''error'', JStr ''Unknown bot token'')]"]
    object_body_classification [of "scripted [Inr forbidden]" "fresh doc_bot" "''GET''"
      "''/api/bot/list''" no_kwargs forbidden "JObj [(''success'', JBool False)]"]
    object_body_classification [of "scripted [Inr not_found]" "fresh doc_bot" "''GET''"
      "''/api/bot/list''" no_kwargs not_found "JObj []"]
    object_body_classification [of "scripted [Inr bad_gateway]" "fresh doc_bot" "''GET''"
      "''/api/bot/list''" no_kwargs bad_gateway "JObj []"]
    object_body_classification [of "scripted [Inr ok_response]" "fresh doc_bot" "''GET''"
      "''/api/bot/list''" no_kwargs ok_response ok_body]
    object_body_classification [of "scripted [Inr too_many, Inr forbidden]" "fresh doc_bot"
      "''GET''" "''/api/bot/list''" no_kwargs forbidden "JObj [(''success'', JBool False)]"]
  by (simp add: examined_def scenario_defs message_or_def server_message_def str_int_def
      str_nat.simps)

text \<open>
  An examined response with status 401, be it the first one or the one of the retry: if
  its body is a JSON object the call raises the Auth error, whatever the object holds; if
  its body does not parse at all the call raises the invalid-response error, so parsing
  comes before classification.
\<close>

lemma auth_for_object_bodies:
  assumes "examined net s (request_of (client s) meth endpoint kw) = Inr resp"
    and "status_code resp = 401"
  shows "(json_body resp = Some data \<and> is_dict data \<longrightarrow>
            fst (OshiBot_request net meth endpoint kw s)
              = Inl (OshiAuthError (message_or data ''Invalid bot token'')))
         \<and> (json_body resp = None \<longrightarrow>
            fst (OshiBot_request net meth endpoint kw s)
              = Inl (OshiBotError (JStr ''Invalid response from server (HTTP 401)'')))"
  using assms
  by (simp add: request_via_examined handle_response_dict handle_response_unparsed
      str_int_401)

lemma auth_for_object_bodies_examples:
  "status_code misleading_401 = 401 \<and> status_code html_page = 401
   \<and> json_body html_page = None
   \<and> fst (OshiBot_request (scripted [Inr misleading_401]) ''GET'' ''/api/bot/list'' no_kwargs
         (fresh doc_bot)) = Inl (OshiAuthError (JStr ''Bot not assigned to group''))
   \<and> fst (OshiBot_request (scripted [Inr too_many, Inr misleading_401]) ''GET''
         ''/api/bot/list'' no_kwargs (fresh doc_bot))
       = Inl (OshiAuthError (JStr ''Bot not assigned to group''))
   \<and> fst (OshiBot_request (scripted [Inr html_page]) ''GET'' ''/api/bot/list'' no_kwargs
         (fresh doc_bot)) = Inl (OshiBotError (JStr ''Invalid response from server (HTTP 401)''))"
  using
    auth_for_object_bodies [of "scripted [Inr misleading_401]" "fresh doc_bot" "''GET''"
      "''/api/bot/list''" no_kwargs misleading_401
      "JObj [(''error'', JStr ''Bot not assigned to group'')]"]
    auth_for_object_bodies [of "scripted [Inr too_many, Inr misleading_401]" "fresh doc_bot"
      "''GET''" "''/api/bot/list''" no_kwargs misleading_401
      "JObj [(''error'', JStr ''Bot not assigned to group'')]"]
    auth_for_object_bodies [of "scripted [Inr html_page]" "fresh doc_bot" "''GET''"
      "''/api/bot/list''" no_kwargs html_page JNull]
  by (simp add: examined_def scenario_defs message_or_def server_message_def)

subsection \<open>Bodies that parse but are no objects\<close>

text \<open>
  \<open>data.get\<close> is called without a check that \<open>data\<close> is a dict. For an examined response
  with a status of 400 or more, other than 429, whose body parses as an array, a string,
  a number, a boolean or \<open>null\<close>, the call raises \<open>AttributeError\<close>.
\<close>

lemma non_object_body_raises:
  assumes "examined net s (request_of (client s) meth endpoint kw) = Inr resp"
    and "status_code resp \<noteq> 429"
    and "400 \<le> status_code resp"
    and "json_body resp = Some data"
    and "\<not> is_dict data"
  shows "fst (OshiBot_request net meth endpoint kw s) = Inl AttributeError"
proof -
  have "fst (OshiBot_request net meth endpoint kw s) = handle_response resp"
    using assms(1,2) by (simp add: request_via_examined)
  moreover have "raise_get C data dflt = Inl AttributeError" for C dflt
    using assms(5) by (cases data) (simp_all add: raise_get_def dict_get_def)
  ultimately show ?thesis
    using assms(3,4) by (simp add: handle_response_def)
qed

text \<open>
  C1. Every response whose body parses as JSON is to be classified by its status code:
  401 the Auth error, 403 the GroupAssignment error, 404 the NotFound error, any other
  status from 400 on the generic error with the server's message or else the default of
  the status, and below 400 the parsed body returned. The code does not do this for
  status 500 with the body \<open>[]\<close>, which parses as JSON: the call raises
  \<open>AttributeError\<close>, which is not the generic error \<open>HTTP 500\<close> and no error of the SDK
  at all.
\<close>

theorem non_object_error_body:
  "json_body array_error = Some (JArr []) \<and> status_code array_error = 500
   \<and> fst (OshiBot_request (scripted [Inr array_error]) ''GET'' ''/api/bot/list'' no_kwargs
         (fresh doc_bot)) = Inl AttributeError
   \<and> fst (OshiBot_request (scripted [Inr array_error]) ''GET'' ''/api/bot/list'' no_kwargs
         (fresh doc_bot)) \<noteq> Inl (OshiBotError (JStr ''HTTP 500''))
   \<and> \<not> is_OshiBotError AttributeError"
  by (simp add: request_result scenario_defs handle_response_def raise_get_def dict_get_def)

text \<open>
  C2. A response with status 401 is to be classified as Auth whatever its body holds,
  whenever the body parses as JSON, and an unparsable body is to give the
  invalid-response error first. The code does not do the former for status 401 with the
  JSON string \<open>"Unauthorized"\<close> as body, which parses as JSON: the call raises
  \<open>AttributeError\<close>, not the Auth error.
\<close>

theorem non_object_401_body:
  "json_body string_unauthorized = Some (JStr ''Unauthorized'')
   \<and> status_code string_unauthorized = 401
   \<and> fst (OshiBot_request (scripted [Inr string_unauthorized]) ''GET'' ''/api/bot/list''
         no_kwargs (fresh doc_bot)) = Inl AttributeError
   \<and> fst (OshiBot_request (scripted [Inr string_unauthorized]) ''GET'' ''/api/bot/list''
         no_kwargs (fresh doc_bot)) \<noteq> Inl (OshiAuthError (JStr ''Invalid bot token''))
   \<and> (\<forall>m. AttributeError \<noteq> OshiAuthError m)"
  by (simp add: request_result scenario_defs handle_response_def raise_get_def dict_get_def)

section \<open>Transport failures\<close>

text \<open>
  C5. A connection failure or a timeout of the first attempt: the call raises the base
  error and the session was asked exactly once, so nothing was retried and nothing
  slept. After a connection failure (a connect timeout is one) the message is
  \<open>Connection failed:\<close> and the URL; after any other timeout it is
  \<open>Request timed out after\<close> and the configured timeout, without the URL.
\<close>

theorem transport_failure:
  assumes "net (attempts (trace s)) (request_of (client s) meth endpoint kw) = Inl x"
    and "x \<noteq> OtherException"
  shows "OshiBot_request net meth endpoint kw s =
           (Inl (OshiBotError (JStr
              (if x = Timeout
               then ''Request timed out after '' @ str_int (timeout (client s)) @ ''s''
               else ''Connection failed: '' @ req_url (request_of (client s) meth endpoint kw)))),
            s\<lparr>trace := trace s @ [Request (request_of (client s) meth endpoint kw)]\<rparr>)
         \<and> attempts (trace (snd (OshiBot_request net meth endpoint kw s)))
             = Suc (attempts (trace s))"
  using assms
  by (cases x)
    (simp_all add: OshiBot_request_def session_request_def Let_def attempts_simps
      request_of_def)

theorem transport_failure_witness:
  "OshiBot_request (scripted [Inl ConnectionError]) ''GET'' ''/api/bot/list'' no_kwargs
       (fresh doc_bot)
     = (Inl (OshiBotError
              (JStr ''Connection failed: https://oshi-messenger.com/api/bot/list'')),
        \<lparr>client = doc_bot, trace = [Request list_request]\<rparr>)
   \<and> OshiBot_request (scripted [Inl Timeout]) ''GET'' ''/api/bot/list'' no_kwargs
       (fresh doc_bot)
     = (Inl (OshiBotError (JStr ''Request timed out after 10s'')),
        \<lparr>client = doc_bot, trace = [Request list_request]\<rparr>)"
  using
    transport_failure [of "scripted [Inl ConnectionError]" "fresh doc_bot" "''GET''"
      "''/api/bot/list''" no_kwargs ConnectionError]
    transport_failure [of "scripted [Inl Timeout]" "fresh doc_bot" "''GET''"
      "''/api/bot/list''" no_kwargs Timeout]
  by (simp add: scenario_defs list_request_def str_int_def str_nat.simps)

text \<open>
  C5 as stated, with the target address in the error, fails for a timeout: the message
  names the timeout and the URL is nowhere in it.
\<close>

theorem timeout_message_lacks_address:
  "fst (OshiBot_request (scripted [Inl Timeout]) ''GET'' ''/api/bot/list'' no_kwargs
         (fresh doc_bot)) = Inl (OshiBotError (JStr ''Request timed out after 10s''))
   \<and> req_url (request_of doc_bot ''GET'' ''/api/bot/list'' no_kwargs)
       = ''https://oshi-messenger.com/api/bot/list''
   \<and> \<not> sublist ''https://oshi-messenger.com/api/bot/list'' ''Request timed out after 10s''"
  by (simp add: request_result scenario_defs list_request_def str_int_def str_nat.simps
      sublist_Cons_right)


section \<open>The exception classes\<close>




section \<open>The display form\<close>

text \<open>
  C8. For a token of more than eight characters, the display form is
  \<open>OshiBot(token='\<close>, the first eight characters of the token, \<open>...', base_url='\<close>, the
  base address without trailing slashes, \<open>')\<close>; the eight characters are not the whole
  token, and every token that starts with them gives the same display form, so it says
  nothing about the rest.
\<close>

theorem repr_shows_token_prefix:
  assumes "8 < length tok"
  shows "OshiBot_repr (OshiBot_init tok url tmo retry)
           = ''OshiBot(token='' @ [CHR 0x27] @ take 8 tok @ ''...'' @ [CHR 0x27]
               @ '', base_url='' @ [CHR 0x27] @ rstrip_slash url @ [CHR 0x27] @ '')''
         \<and> take 8 tok \<noteq> tok
         \<and> (\<forall>tok'. take 8 tok' = take 8 tok \<longrightarrow>
               OshiBot_repr (OshiBot_init tok' url tmo retry)
                 = OshiBot_repr (OshiBot_init tok url tmo retry))"
proof -
  from assms have "length (take 8 tok) \<noteq> length tok"
    by simp
  then have "take 8 tok \<noteq> tok"
    by metis
  then show ?thesis
    by (simp add: OshiBot_repr_def OshiBot_init_def)
qed

theorem repr_shows_token_prefix_witness:
  "8 < length ''a1b2c3d4e5f6g7h8i9j0k1l2m3n4o5p6''
   \<and> take 8 ''a1b2c3d4ffffffffffffffffffffffff'' = take 8 ''a1b2c3d4e5f6g7h8i9j0k1l2m3n4o5p6''
   \<and> OshiBot_repr (OshiBot_init ''a1b2c3d4e5f6g7h8i9j0k1l2m3n4o5p6''
         ''https://oshi-messenger.com/'' 10 True)
     = ''OshiBot(token='' @ [CHR 0x27] @ ''a1b2c3d4'' @ ''...'' @ [CHR 0x27]
         @ '', base_url='' @ [CHR 0x27] @ ''https://oshi-messenger.com'' @ [CHR 0x27] @ '')''
   \<and> OshiBot_repr (OshiBot_init ''a1b2c3d4ffffffffffffffffffffffff''
         ''https://oshi-messenger.com/'' 10 True)
     = OshiBot_repr (OshiBot_init ''a1b2c3d4e5f6g7h8i9j0k1l2m3n4o5p6''
         ''https://oshi-messenger.com/'' 10 True)"
  using repr_shows_token_prefix [of "''a1b2c3d4e5f6g7h8i9j0k1l2m3n4o5p6''"
      "''https://oshi-messenger.com/''" 10 True]
  by (simp add: rstrip_slash_def)

text \<open>
  C8 as stated, for every token, fails on a token of at most eight characters, such as
  the \<open>dummy\<close> of the command line's \<open>list\<close>: it is displayed whole.
\<close>

theorem short_token_shown_in_full:
  "OshiBot_repr (OshiBot_init ''dummy'' ''https://oshi-messenger.com'' 10 True)
     = ''OshiBot(token='' @ [CHR 0x27] @ ''dummy'' @ ''...'' @ [CHR 0x27]
         @ '', base_url='' @ [CHR 0x27] @ ''https://oshi-messenger.com'' @ [CHR 0x27] @ '')''
   \<and> sublist ''dummy''
        (OshiBot_repr (OshiBot_init ''dummy'' ''https://oshi-messenger.com'' 10 True))"
  by (simp add: OshiBot_repr_def OshiBot_init_def rstrip_slash_def sublist_Cons_right)

section \<open>The configuration is immutable\<close>

text \<open>
  C9. No method changes the client object, that is its token, base address, timeout and
  retry flag: the state after \<open>_request\<close>, after each of the six API methods and after
  each of the three convenience methods holds the client it started with. And
  \<open>_request\<close> puts on the wire either its request once, or its request, the warning, the
  sleep of 5 seconds and the very same request again: same method, URL and keyword
  arguments, payload included.
\<close>

theorem configuration_never_mutated:
  "client (snd (OshiBot_request net meth endpoint kw s)) = client s
   \<and> client (snd (send net gid content s)) = client s
   \<and> client (snd (info net s)) = client s
   \<and> client (snd (register net bot_name owner_public_key groups s)) = client s
   \<and> client (snd (update_groups net gs s)) = client s
   \<and> client (snd (unregister net s)) = client s
   \<and> client (snd (list_bots net s)) = client s
   \<and> client (snd (send_to_all_groups net py_str content s)) = client s
   \<and> client (snd (get_groups net s)) = client s
   \<and> client (snd (get_stats net s)) = client s
   \<and> (trace (snd (OshiBot_request net meth endpoint kw s))
         = trace s @ [Request (request_of (client s) meth endpoint kw)]
       \<or> trace (snd (OshiBot_request net meth endpoint kw s))
         = trace s @ [Request (request_of (client s) meth endpoint kw),
                      Warning ''Rate limited, waiting 5s before retry...'',
                      Sleep 5,
                      Request (request_of (client s) meth endpoint kw)])"
proof -
  have "trace (snd (OshiBot_request net meth endpoint kw s))
          = trace s @ [Request (request_of (client s) meth endpoint kw)]
        \<or> trace (snd (OshiBot_request net meth endpoint kw s))
          = trace s @ [Request (request_of (client s) meth endpoint kw),
                       Warning ''Rate limited, waiting 5s before retry...'',
                       Sleep 5,
                       Request (request_of (client s) meth endpoint kw)]"
    by (simp add: request_trace retried_trace_def split: sum.split)
  then show ?thesis
    by (simp add: send_to_all_groups_client get_groups_client get_stats_client
        register_def update_groups_def unregister_def list_bots_def)
qed

section \<open>Sending to all groups\<close>

text \<open>
  C6. \<open>info\<close> succeeded and lists \<open>groups\<close>, each an object with an \<open>"id"\<close>, and every
  send of the loop either returns a body or raises an error of the SDK. Then
  \<open>send_to_all_groups\<close> returns a list with one entry for each group, in order: the
  body where the send to that group succeeded, and where it failed the record of
  \<open>success\<close> false, the \<open>groupId\<close> of that group and the \<open>error\<close> message. No such
  failure stops the loop.
\<close>

theorem send_to_all_groups_partial_failure:
  assumes "info net s = (Inr bot_info, s1)"
    and "bot_field bot_info ''groups'' (JArr []) = Inr (JArr groups)"
    and "map (\<lambda>g. getitem g ''id'') groups = map Inr gids"
    and "\<forall>k<length groups. classified (kth_send net py_str content groups gids [] s1 k)"
  shows "\<exists>results.
           fst (send_to_all_groups net py_str content s) = Inr results
           \<and> length results = length groups
           \<and> (\<forall>k<length groups.
                 (\<forall>body. kth_send net py_str content groups gids [] s1 k = Inr body
                    \<longrightarrow> results ! k = body)
                 \<and> (\<forall>e. kth_send net py_str content groups gids [] s1 k = Inl e
                    \<longrightarrow> results ! k = JObj [(''success'', JBool False),
                                              (''groupId'', gids ! k),
                                              (''error'', JStr (exn_str py_str e))]))"
proof -
  let ?entry = "\<lambda>k. result_entry py_str (gids ! k)
                      (kth_send net py_str content groups gids [] s1 k)"
  let ?results = "map ?entry [0..<length groups]"
  have "send_to_all_groups net py_str content s = send_each net py_str content groups [] s1"
    using assms(1,2) by (simp add: send_to_all_groups_def iterate_def)
  moreover have "fst (send_each net py_str content groups [] s1) = Inr ([] @ ?results)"
    using assms(3,4) by (rule send_each_entries)
  ultimately have "fst (send_to_all_groups net py_str content s) = Inr ?results"
    by simp
  moreover have "length ?results = length groups"
    by simp
  moreover have "\<forall>k<length groups.
      (\<forall>body. kth_send net py_str content groups gids [] s1 k = Inr body
         \<longrightarrow> ?results ! k = body)
      \<and> (\<forall>e. kth_send net py_str content groups gids [] s1 k = Inl e
         \<longrightarrow> ?results ! k = JObj [(''success'', JBool False), (''groupId'', gids ! k),
                                     (''error'', JStr (exn_str py_str e))])"
    by (simp add: result_entry_def)
  ultimately show ?thesis
    by blast
qed

theorem send_to_all_groups_partial_failure_witness:
  "getitem group_b ''id'' = Inr (JStr ''group-b'')
   \<and> kth_send broadcast_net plain_str ''Maintenance at noon'' [group_a, group_b, group_c]
        [JStr ''group-a'', JStr ''group-b'', JStr ''group-c''] []
        (snd (info broadcast_net (fresh doc_bot))) (Suc 0)
       = Inl (OshiGroupError (JStr ''Bot not assigned to group''))
   \<and> fst (send_to_all_groups broadcast_net plain_str ''Maintenance at noon'' (fresh doc_bot))
     = Inr [delivered_body,
            JObj [(''success'', JBool False), (''groupId'', JStr ''group-b''),
                  (''error'', JStr ''Bot not assigned to group'')],
            delivered_body]"
proof -
  have all_classified:
    "\<forall>k<length [group_a, group_b, group_c].
       classified (kth_send broadcast_net plain_str ''Maintenance at noon''
         [group_a, group_b, group_c] [JStr ''group-a'', JStr ''group-b'', JStr ''group-c'']
         [] (snd (info broadcast_net (fresh doc_bot))) k)"
    by (simp add: less_Suc_eq broadcast_sends classified_def)
  from send_to_all_groups_partial_failure
    [OF broadcast_info broadcast_groups(1) broadcast_groups(2) all_classified]
  obtain results where
    "fst (send_to_all_groups broadcast_net plain_str ''Maintenance at noon'' (fresh doc_bot))
       = Inr results"
    and "length results = 3"
    by auto
  moreover have "getitem group_b ''id'' = Inr (JStr ''group-b'')"
    by (simp add: getitem_def group_b_def)
  ultimately show ?thesis
    by (simp add: broadcast_sends broadcast_result)
qed

end
